theory Spec2Isabelle
  imports Main "HOL-Library.FSet"
begin

section \<open>The artwork table: data model\<close>

text \<open>
  The component \<open>ArtworkTable\<close> of \<open>src/ArtworkTable.tsx\<close> keeps its state in React
  state variables (lines 16 to 26). A handler reads the values of the render that created
  it and queues new values with the setters, so every handler is a function from the state
  it was created in to the next state. The ids, the total and the page number are integers;
  a \<open>Set<number>\<close> is a finite set of integers. A JavaScript string is the list of its
  UTF-16 code units.
\<close>

type_synonym jsstring = "nat list"

text \<open>The code units of a text whose characters are all below \<open>U+0100\<close>.\<close>

definition js :: "string \<Rightarrow> jsstring" where
  "js s = map of_char s"

text \<open>
  A JavaScript number as \<open>parseInt\<close> returns it: \<open>NaN\<close>, an integer that a double
  holds, or an infinity.
\<close>

datatype number = NaN | Num int | PosInfinity | NegInfinity

text \<open>
  Modelled from the spec: the type \<open>Artwork\<close> is imported from \<open>@/types/artwork\<close>,
  which is not among the sources. Section 6 of the specification gives its shape: a
  required integer \<open>id\<close> and optional display fields. The field \<open>id\<close> is named
  \<open>artwork_id\<close> here.
\<close>

record artwork =
  artwork_id :: int
  title :: "string option"
  place_of_origin :: "string option"
  artist_display :: "string option"
  inscriptions :: "string option"
  date_start :: "int option"
  date_end :: "int option"

datatype SelectionMode = Manual | Custom

record state =
  artworks :: "artwork list"
  loading :: bool
  totalRecords :: int
  currentPage :: int
  selectionMode :: SelectionMode
  customSelectTarget :: int
  selectedRowIds :: "int fset"
  deselectedRowIds :: "int fset"
  customSelectCount :: jsstring

definition ROWS_PER_PAGE :: int where
  "ROWS_PER_PAGE = 12"

text \<open>The values of the \<open>useState\<close> calls of lines 16 to 26.\<close>

definition initial_state :: state where
  "initial_state =
     \<lparr>artworks = [], loading = False, totalRecords = 0, currentPage = 1,
      selectionMode = Manual, customSelectTarget = 0,
      selectedRowIds = {||}, deselectedRowIds = {||}, customSelectCount = []\<rparr>"

text \<open>
  What a handler does besides queueing state: the two \<open>alert\<close> messages of
  \<open>handleCustomSelection\<close> (the second one carries the count and the total it prints),
  hiding the overlay panel, the request of \<open>fetchArtworks\<close> with its page and limit,
  and the \<open>console.error\<close> of its \<open>catch\<close> block.
\<close>

datatype effect =
    AlertInvalidNumber
  | AlertTooMany number int
  | OverlayHide
  | FetchRequest int int
  | ConsoleError

section \<open>Membership\<close>

text \<open>\<open>isArtworkSelected\<close>, lines 53 to 67. The index on the page is an array index.\<close>

definition isArtworkSelected :: "state \<Rightarrow> artwork \<Rightarrow> nat \<Rightarrow> bool" where
  "isArtworkSelected st a indexOnPage =
     (if artwork_id a |\<in>| deselectedRowIds st then False
      else if artwork_id a |\<in>| selectedRowIds st then True
      else if selectionMode st = Custom \<and> customSelectTarget st > 0 then
        (let globalPosition = (currentPage st - 1) * ROWS_PER_PAGE + int indexOnPage + 1
         in globalPosition \<le> customSelectTarget st)
      else False)"

text \<open>The rows of the page with their indices, as \<open>filter\<close>, \<open>every\<close> and
  \<open>forEach\<close> pass them to their callbacks.\<close>

definition indexed :: "'a list \<Rightarrow> ('a \<times> nat) list" where
  "indexed xs = zip xs [0..<length xs]"

text \<open>\<open>getSelectedArtworks\<close>, lines 70 to 72.\<close>

definition getSelectedArtworks :: "state \<Rightarrow> artwork list" where
  "getSelectedArtworks st =
     map fst (filter (\<lambda>(a, i). isArtworkSelected st a i) (indexed (artworks st)))"

text \<open>\<open>getTotalSelectedCount\<close>, lines 75 to 88. The filter of line 78 keeps every
  element, so \<open>deselectedInRange\<close> is the size of the set.\<close>

definition getTotalSelectedCount :: "state \<Rightarrow> int" where
  "getTotalSelectedCount st =
     (if selectionMode st = Custom \<and> customSelectTarget st > 0 then
        (let deselectedInRange = int (fcard (ffilter (\<lambda>id. True) (deselectedRowIds st)))
         in max 0 (min (customSelectTarget st) (totalRecords st) - deselectedInRange))
      else int (fcard (selectedRowIds st)))"

text \<open>\<open>isAllSelected\<close>, lines 91 to 93.\<close>

definition isAllSelected :: "state \<Rightarrow> bool" where
  "isAllSelected st =
     (length (artworks st) > 0 \<and>
      list_all (\<lambda>(a, i). isArtworkSelected st a i) (indexed (artworks st)))"

section \<open>Manual changes\<close>

text \<open>
  The callback of the \<open>forEach\<close> of lines 105 to 118. \<open>isArtworkSelected\<close> reads the
  state of the render (\<open>st\<close>), not the two sets under construction.
\<close>

definition selectionStep ::
  "state \<Rightarrow> artwork list \<Rightarrow> int fset \<times> int fset \<Rightarrow> artwork \<times> nat \<Rightarrow> int fset \<times> int fset" where
  "selectionStep st newSelection acc row =
     (case (acc, row) of ((newSelectedIds, newDeselectedIds), (a, i)) \<Rightarrow>
        (let isNowSelected = list_ex (\<lambda>item. artwork_id item = artwork_id a) newSelection;
             wasSelected = isArtworkSelected st a i
         in if isNowSelected \<and> \<not> wasSelected then
              (finsert (artwork_id a) newSelectedIds, newDeselectedIds |-| {|artwork_id a|})
            else if \<not> isNowSelected \<and> wasSelected then
              (newSelectedIds |-| {|artwork_id a|}, finsert (artwork_id a) newDeselectedIds)
            else (newSelectedIds, newDeselectedIds)))"

text \<open>\<open>onSelectionChange\<close>, lines 95 to 122; \<open>newSelection\<close> is \<open>e.value\<close>.\<close>

definition onSelectionChange :: "artwork list \<Rightarrow> state \<Rightarrow> state" where
  "onSelectionChange newSelection st =
     (case foldl (selectionStep st newSelection)
             (selectedRowIds st, deselectedRowIds st) (indexed (artworks st)) of
        (newSelectedIds, newDeselectedIds) \<Rightarrow>
          st\<lparr>selectionMode := Manual, customSelectTarget := 0,
             selectedRowIds := newSelectedIds, deselectedRowIds := newDeselectedIds\<rparr>)"

text \<open>\<open>onSelectAllChange\<close>, lines 124 to 148; \<open>checked\<close> is \<open>e.checked\<close>.\<close>

definition selectAllStep :: "bool \<Rightarrow> int fset \<times> int fset \<Rightarrow> artwork \<Rightarrow> int fset \<times> int fset" where
  "selectAllStep checked acc a =
     (case acc of (newSelectedIds, newDeselectedIds) \<Rightarrow>
        if checked then
          (finsert (artwork_id a) newSelectedIds, newDeselectedIds |-| {|artwork_id a|})
        else
          (newSelectedIds |-| {|artwork_id a|}, finsert (artwork_id a) newDeselectedIds))"

definition onSelectAllChange :: "bool \<Rightarrow> state \<Rightarrow> state" where
  "onSelectAllChange checked st =
     (case foldl (selectAllStep checked)
             (selectedRowIds st, deselectedRowIds st) (artworks st) of
        (newSelectedIds, newDeselectedIds) \<Rightarrow>
          st\<lparr>selectionMode := Manual, customSelectTarget := 0,
             selectedRowIds := newSelectedIds, deselectedRowIds := newDeselectedIds\<rparr>)"

section \<open>Bulk selection\<close>

text \<open>
  The number of binary digits of a natural number.
\<close>

fun bitLength :: "nat \<Rightarrow> nat" where
  "bitLength n = (if n = 0 then 0 else Suc (bitLength (n div 2)))"

declare bitLength.simps [simp del]

text \<open>
  The double nearest to an integer, as the last step of \<open>parseInt\<close> takes it: an integer
  below \<open>2 ^ 53\<close> in magnitude is a double; a larger one is rounded to 53 binary digits,
  a tie going to the even neighbour, and is an infinity from \<open>2 ^ 1024\<close> on.
\<close>

definition roundToDouble :: "int \<Rightarrow> number" where
  "roundToDouble n =
     (let m = nat \<bar>n\<bar>
      in if m < 2 ^ 53 then Num n
         else
           (let e = bitLength m - 53;
                q = m div 2 ^ e;
                r = m mod 2 ^ e;
                q' = (if r > 2 ^ (e - 1) \<or> (r = 2 ^ (e - 1) \<and> odd q) then q + 1 else q);
                v = q' * 2 ^ e
            in if v \<ge> 2 ^ 1024 then (if n < 0 then NegInfinity else PosInfinity)
               else Num (if n < 0 then - int v else int v)))"

text \<open>
  \<open>parseInt\<close> with one argument, after the language standard: leading white space and
  line terminators are dropped, then an optional sign, then the prefix \<open>0x\<close> or
  \<open>0X\<close> selects radix 16 (radix 10 otherwise), then the longest run of digits of the
  radix is read; with no digit the result is \<open>NaN\<close>. Whatever follows the digits is
  ignored. The result is the double nearest to the integer read.
\<close>

definition isStrWhiteSpaceChar :: "nat \<Rightarrow> bool" where
  "isStrWhiteSpaceChar c =
     (c = 0x09 \<or> c = 0x0A \<or> c = 0x0B \<or> c = 0x0C \<or> c = 0x0D \<or> c = 0x20 \<or> c = 0xA0
      \<or> c = 0x1680 \<or> (0x2000 \<le> c \<and> c \<le> 0x200A) \<or> c = 0x2028 \<or> c = 0x2029
      \<or> c = 0x202F \<or> c = 0x205F \<or> c = 0x3000 \<or> c = 0xFEFF)"

definition digitValue :: "nat \<Rightarrow> nat option" where
  "digitValue c =
     (if 48 \<le> c \<and> c \<le> 57 then Some (c - 48)
      else if 97 \<le> c \<and> c \<le> 122 then Some (c - 87)
      else if 65 \<le> c \<and> c \<le> 90 then Some (c - 55)
      else None)"

definition isRadixDigit :: "nat \<Rightarrow> nat \<Rightarrow> bool" where
  "isRadixDigit R c = (case digitValue c of Some d \<Rightarrow> d < R | None \<Rightarrow> False)"

definition mathInt :: "nat \<Rightarrow> jsstring \<Rightarrow> nat" where
  "mathInt R Z = foldl (\<lambda>m c. m * R + (case digitValue c of Some d \<Rightarrow> d | None \<Rightarrow> 0)) 0 Z"

definition parseInt :: "jsstring \<Rightarrow> number" where
  "parseInt inputString =
     (let S = dropWhile isStrWhiteSpaceChar inputString;
          sign = (if S \<noteq> [] \<and> hd S = 0x2D then - 1 else 1 :: int);
          S1 = (if S \<noteq> [] \<and> (hd S = 0x2B \<or> hd S = 0x2D) then tl S else S);
          hex = (length S1 \<ge> 2 \<and> (take 2 S1 = [0x30, 0x78] \<or> take 2 S1 = [0x30, 0x58]));
          R = (if hex then 16 else 10);
          S2 = (if hex then drop 2 S1 else S1);
          Z = takeWhile (isRadixDigit R) S2
      in if Z = [] then NaN else roundToDouble (sign * int (mathInt R Z)))"

text \<open>
  \<open>handleCustomSelection\<close>, lines 150 to 173. The guard of line 153 is
  \<open>!count || count <= 0 || isNaN(count)\<close>: for \<open>NaN\<close> the first disjunct holds; for
  an integer \<open>!count\<close> is \<open>count = 0\<close> and \<open>isNaN(count)\<close> is false; the negative
  infinity is at most 0. A comparison with \<open>NaN\<close> is false, and the positive infinity is
  above every total, so line 163 is reached with an integer only. The function returns the
  next state and what it shows the user.
\<close>

definition handleCustomSelection :: "state \<Rightarrow> state \<times> effect list" where
  "handleCustomSelection st =
     (case parseInt (customSelectCount st) of
        NaN \<Rightarrow> (st, [AlertInvalidNumber])
      | NegInfinity \<Rightarrow> (st, [AlertInvalidNumber])
      | PosInfinity \<Rightarrow> (st, [AlertTooMany PosInfinity (totalRecords st)])
      | Num count \<Rightarrow>
          if count = 0 \<or> count \<le> 0 then (st, [AlertInvalidNumber])
          else if count > totalRecords st then
            (st, [AlertTooMany (Num count) (totalRecords st)])
          else (st\<lparr>selectionMode := Custom, customSelectTarget := count,
                   selectedRowIds := {||}, deselectedRowIds := {||},
                   customSelectCount := []\<rparr>,
                [OverlayHide]))"

definition isAlert :: "effect \<Rightarrow> bool" where
  "isAlert e = (case e of AlertInvalidNumber \<Rightarrow> True | AlertTooMany c t \<Rightarrow> True | _ \<Rightarrow> False)"

section \<open>Pages\<close>

text \<open>
  Modelled from the spec: the type \<open>ApiResponse\<close> is imported from \<open>@/types/artwork\<close>,
  which is not among the sources. Section 6 of the specification gives the body as
  \<open>{ data: Record[], pagination: { total: integer, ... } }\<close>. The second argument of
  \<open>ApiResponse\<close> is the total; it is \<open>None\<close> for a body with no \<open>pagination\<close>
  object, where reading \<open>data.pagination.total\<close> throws.
\<close>

datatype api_response = ApiResponse "artwork list" "int option"

text \<open>
  How the two awaited calls of \<open>fetchArtworks\<close> end: \<open>fetch\<close> rejects (a network
  error), \<open>response.json()\<close> rejects (the body is not JSON), or the body is parsed.
\<close>

datatype fetch_outcome = FetchRejected | JsonRejected | Parsed api_response

definition fetch_failed :: "fetch_outcome \<Rightarrow> bool" where
  "fetch_failed outcome =
     (case outcome of
        FetchRejected \<Rightarrow> True
      | JsonRejected \<Rightarrow> True
      | Parsed (ApiResponse rows None) \<Rightarrow> True
      | Parsed (ApiResponse rows (Some n)) \<Rightarrow> False)"

text \<open>
  \<open>fetchArtworks\<close>, lines 34 to 46, in two parts: up to the first \<open>await\<close>, and from
  the moment the awaited calls have ended. The \<open>catch\<close> block logs; the \<open>finally\<close>
  block clears \<open>loading\<close> on every path. With no \<open>pagination\<close> object line 39 has
  already stored the rows when line 40 throws.
\<close>

definition fetchArtworks_begin :: "int \<Rightarrow> state \<Rightarrow> state \<times> effect list" where
  "fetchArtworks_begin page st = (st\<lparr>loading := True\<rparr>, [FetchRequest page ROWS_PER_PAGE])"

definition fetchArtworks_settle :: "fetch_outcome \<Rightarrow> state \<Rightarrow> state \<times> effect list" where
  "fetchArtworks_settle outcome st =
     (case outcome of
        FetchRejected \<Rightarrow> (st\<lparr>loading := False\<rparr>, [ConsoleError])
      | JsonRejected \<Rightarrow> (st\<lparr>loading := False\<rparr>, [ConsoleError])
      | Parsed (ApiResponse rows None) \<Rightarrow>
          (st\<lparr>artworks := rows, loading := False\<rparr>, [ConsoleError])
      | Parsed (ApiResponse rows (Some n)) \<Rightarrow>
          (st\<lparr>artworks := rows, totalRecords := n, loading := False\<rparr>, []))"

text \<open>\<open>onPageChange\<close>, lines 48 to 50; \<open>page\<close> is \<open>event.page\<close>.\<close>

definition onPageChange :: "int \<Rightarrow> state \<Rightarrow> state" where
  "onPageChange page st = st\<lparr>currentPage := page + 1\<rparr>"

section \<open>Sessions\<close>

text \<open>
  What can happen to the mounted component: the paginator changes the page (the effect of
  lines 30 to 32 then starts a fetch when \<open>currentPage\<close> has changed), a fetch settles,
  the table reports a new selection or a click on the header checkbox, the text of the
  count input changes (line 282), the count is submitted.
\<close>

datatype event =
    PageChange int
  | FetchSettled fetch_outcome
  | SelectionChange "artwork list"
  | SelectAllChange bool
  | CountInput jsstring
  | Submit

definition step :: "event \<Rightarrow> state \<Rightarrow> state" where
  "step e st =
     (case e of
        PageChange page \<Rightarrow>
          (if currentPage (onPageChange page st) = currentPage st then onPageChange page st
           else fst (fetchArtworks_begin (currentPage (onPageChange page st))
                       (onPageChange page st)))
      | FetchSettled outcome \<Rightarrow> fst (fetchArtworks_settle outcome st)
      | SelectionChange newSelection \<Rightarrow> onSelectionChange newSelection st
      | SelectAllChange checked \<Rightarrow> onSelectAllChange checked st
      | CountInput s \<Rightarrow> st\<lparr>customSelectCount := s\<rparr>
      | Submit \<Rightarrow> fst (handleCustomSelection st))"

fun run :: "event list \<Rightarrow> state \<Rightarrow> state" where
  "run [] st = st"
| "run (e # es) st = run es (step e st)"

section \<open>Toggling one row\<close>

text \<open>
  A new selection that differs from the displayed one in the rows with the id \<open>x\<close> and
  in no other row of the page: what the table reports when the checkbox of that row is
  clicked.
\<close>

definition togglesOnly :: "int \<Rightarrow> artwork list \<Rightarrow> state \<Rightarrow> bool" where
  "togglesOnly x newSelection st =
     list_all (\<lambda>(a, i).
        list_ex (\<lambda>item. artwork_id item = artwork_id a) newSelection =
          (if artwork_id a = x then \<not> isArtworkSelected st a i else isArtworkSelected st a i))
       (indexed (artworks st))"

text \<open>A sequence of such clicks on the same row, each reported against the state the
  previous one left.\<close>

fun toggleSequence :: "int \<Rightarrow> artwork list list \<Rightarrow> state \<Rightarrow> bool" where
  "toggleSequence x [] st = True"
| "toggleSequence x (newSelection # rest) st =
     (togglesOnly x newSelection st \<and> toggleSequence x rest (onSelectionChange newSelection st))"

fun applySelections :: "artwork list list \<Rightarrow> state \<Rightarrow> state" where
  "applySelections [] st = st"
| "applySelections (newSelection # rest) st =
     applySelections rest (onSelectionChange newSelection st)"

section \<open>Scenario A\<close>

definition plain_artwork :: "int \<Rightarrow> artwork" where
  "plain_artwork i =
     \<lparr>artwork_id = i, title = None, place_of_origin = None, artist_display = None,
      inscriptions = None, date_start = None, date_end = None\<rparr>"

text \<open>Fifty records, twelve to a page, the first fifteen selected in bulk; the record at
  global position \<open>p\<close> has the id \<open>p\<close>.\<close>

definition scenario_A :: "int \<Rightarrow> state" where
  "scenario_A page =
     \<lparr>artworks = map plain_artwork [(page - 1) * 12 + 1 ..page * 12], loading = False,
      totalRecords = 50, currentPage = page,
      selectionMode = Custom, customSelectTarget = 15,
      selectedRowIds = {||}, deselectedRowIds = {||}, customSelectCount = []\<rparr>"

text \<open>The session that leads to scenario A: the first page arrives with the total,
  the user types 15 and submits.\<close>

definition session_A :: "event list" where
  "session_A =
     [FetchSettled (Parsed (ApiResponse
        (map plain_artwork [1, 2, 3, 4, 5, 6, 7, 8, 9, 10, 11, 12]) (Some 50))),
      CountInput (js ''15''), Submit]"

text \<open>A manual session: a page of four rows arrives, the header checkbox is ticked, then
  the row 14 is deselected.\<close>

definition session_B :: "event list" where
  "session_B =
     [FetchSettled (Parsed (ApiResponse (map plain_artwork [13, 14, 15, 16]) (Some 50))),
      SelectAllChange True,
      SelectionChange [plain_artwork 13, plain_artwork 15, plain_artwork 16]]"

section \<open>Invariants of a session\<close>

text \<open>The two sets under construction share no id.\<close>

definition setsDisjoint :: "int fset \<times> int fset \<Rightarrow> bool" where
  "setsDisjoint acc = (fst acc |\<inter>| snd acc = {||})"

text \<open>Bulk mode has a positive target and no explicit id; manual mode has no target.\<close>

definition modeInvariant :: "state \<Rightarrow> bool" where
  "modeInvariant st =
     ((selectionMode st = Custom \<longrightarrow>
         customSelectTarget st > 0 \<and> selectedRowIds st = {||} \<and> deselectedRowIds st = {||})
      \<and> (selectionMode st = Manual \<longrightarrow> customSelectTarget st = 0))"

section \<open>One row and a new selection\<close>

text \<open>Whether a new selection reports the row as changed when its id is \<open>x\<close> and as
  unchanged otherwise: the condition of \<open>togglesOnly\<close> for one row.\<close>

definition flipsRow :: "int \<Rightarrow> artwork list \<Rightarrow> state \<Rightarrow> artwork \<times> nat \<Rightarrow> bool" where
  "flipsRow x newSelection st row =
     (list_ex (\<lambda>item. artwork_id item = artwork_id (fst row)) newSelection =
        (if artwork_id (fst row) = x then \<not> isArtworkSelected st (fst row) (snd row)
         else isArtworkSelected st (fst row) (snd row)))"

section \<open>Example states\<close>

text \<open>Page 2 with four rows in manual mode, two of them in the include set.\<close>

definition manual_page :: state where
  "manual_page =
     \<lparr>artworks = map plain_artwork [13, 14, 15, 16], loading = False,
      totalRecords = 50, currentPage = 2,
      selectionMode = Manual, customSelectTarget = 0,
      selectedRowIds = {|13, 14|}, deselectedRowIds = {||}, customSelectCount = []\<rparr>"

text \<open>The same page in bulk mode with a target of 15: the rows at indices 0, 1 and 2 are
  selected by position.\<close>

definition bulk_page :: state where
  "bulk_page =
     \<lparr>artworks = map plain_artwork [13, 14, 15, 16], loading = False,
      totalRecords = 50, currentPage = 2,
      selectionMode = Custom, customSelectTarget = 15,
      selectedRowIds = {||}, deselectedRowIds = {||}, customSelectCount = []\<rparr>"

section \<open>Evaluation\<close>

lemmas parseInt_eval =
  parseInt_def isStrWhiteSpaceChar_def isRadixDigit_def digitValue_def mathInt_def
  roundToDouble_def js_def

lemmas page_eval =
  onSelectionChange_def selectionStep_def isArtworkSelected_def indexed_def plain_artwork_def
  ROWS_PER_PAGE_def togglesOnly_def

lemma run_session_A: "run session_A initial_state = scenario_A 1"
  by (simp add: session_A_def initial_state_def scenario_A_def step_def fetchArtworks_settle_def
      handleCustomSelection_def parseInt_eval upto.simps)

lemma run_session_B:
  "run session_B initial_state =
     initial_state\<lparr>artworks := map plain_artwork [13, 14, 15, 16], totalRecords := 50,
       selectedRowIds := {|13, 15, 16|}, deselectedRowIds := {|14|}\<rparr>"
  by (simp add: session_B_def initial_state_def step_def fetchArtworks_settle_def
      onSelectAllChange_def selectAllStep_def page_eval) auto

text \<open>\<open>parseInt\<close> reads the digits a text starts with and ignores the rest; it skips a
  leading no-break space.\<close>

lemma parseInt_reads_prefix:
  "parseInt (js ''12abc'') = Num 12 \<and> parseInt (js ''1e3'') = Num 1
   \<and> parseInt (js ''1.5'') = Num 1 \<and> parseInt (0xA0 # js ''42'') = Num 42"
  by (simp add: parseInt_eval)

text \<open>Above \<open>2 ^ 53\<close> the count read is the nearest double: \<open>2 ^ 53 + 1\<close> is read as
  \<open>2 ^ 53\<close>, and \<open>2 ^ 53 + 3\<close>, halfway between two doubles, as \<open>2 ^ 53 + 4\<close>.\<close>

lemma bitLength_examples:
  "bitLength 9007199254740993 = 54 \<and> bitLength 9007199254740995 = 54"
  by (simp add: bitLength.simps)

lemma parseInt_rounds:
  "parseInt (js ''9007199254740993'') = Num 9007199254740992
   \<and> parseInt (js ''9007199254740995'') = Num 9007199254740996"
  by (simp add: parseInt_eval bitLength_examples)

section \<open>Membership\<close>

text \<open>
  C1, the claim as stated fails: with a bulk target of 15 and twelve rows to a page, the row
  at index 2 of page 2 is at global position 15, which is within the target, so it is
  selected along with the rows at indices 0 and 1.
\<close>

theorem isArtworkSelected_scenario_A_index_2:
  "isArtworkSelected (scenario_A 2) (artworks (scenario_A 2) ! 2) 2
   \<and> artwork_id (artworks (scenario_A 2) ! 2) = 15"
  by (simp add: isArtworkSelected_def scenario_A_def ROWS_PER_PAGE_def plain_artwork_def
      upto.simps)

text \<open>
  C1, amended: \<open>isArtworkSelected\<close> decides in a fixed order. An id in the exclude set is
  not selected; otherwise an id in the include set is selected; otherwise in bulk mode with
  a positive target the row is selected exactly when its global position
  \<open>(currentPage - 1) * 12 + index + 1\<close> is at most the target; otherwise it is not
  selected. With a bulk target of 15, both sets empty and twelve rows to a page, all twelve
  rows of page 1 are selected and on page 2 exactly the rows at indices 0, 1 and 2 (global
  positions 13, 14 and 15).
\<close>

theorem isArtworkSelected_decision_order:
  "(artwork_id a |\<in>| deselectedRowIds st \<longrightarrow> \<not> isArtworkSelected st a i)
   \<and> (artwork_id a |\<notin>| deselectedRowIds st \<and> artwork_id a |\<in>| selectedRowIds st
        \<longrightarrow> isArtworkSelected st a i)
   \<and> (artwork_id a |\<notin>| deselectedRowIds st \<and> artwork_id a |\<notin>| selectedRowIds st
        \<and> selectionMode st = Custom \<and> customSelectTarget st > 0
        \<longrightarrow> (isArtworkSelected st a i
              \<longleftrightarrow> (currentPage st - 1) * 12 + int i + 1 \<le> customSelectTarget st))
   \<and> (artwork_id a |\<notin>| deselectedRowIds st \<and> artwork_id a |\<notin>| selectedRowIds st
        \<and> \<not> (selectionMode st = Custom \<and> customSelectTarget st > 0)
        \<longrightarrow> \<not> isArtworkSelected st a i)
   \<and> (selectionMode st = Custom \<and> customSelectTarget st = 15 \<and> totalRecords st = 50
        \<and> selectedRowIds st = {||} \<and> deselectedRowIds st = {||} \<and> i < 12
        \<longrightarrow> (currentPage st = 1 \<longrightarrow> isArtworkSelected st a i)
            \<and> (currentPage st = 2 \<longrightarrow> (isArtworkSelected st a i \<longleftrightarrow> i \<le> 2)))"
  by (auto simp: isArtworkSelected_def ROWS_PER_PAGE_def Let_def)

text \<open>The decision order at work: an id in both sets, an id in the include set on a page
  beyond the target, the rows at indices 2 and 3 of page 2, a row of the initial state, and
  the last row of page 1.\<close>

theorem isArtworkSelected_decision_order_witness:
  "\<not> isArtworkSelected
       (scenario_A 2\<lparr>deselectedRowIds := {|13|}, selectedRowIds := {|13|}\<rparr>) (plain_artwork 13) 0
   \<and> isArtworkSelected (scenario_A 5\<lparr>selectedRowIds := {|49|}\<rparr>) (plain_artwork 49) 0
   \<and> isArtworkSelected (scenario_A 2) (plain_artwork 15) 2
   \<and> \<not> isArtworkSelected (scenario_A 2) (plain_artwork 16) 3
   \<and> \<not> isArtworkSelected initial_state (plain_artwork 1) 0
   \<and> isArtworkSelected (scenario_A 1) (plain_artwork 12) 11"
  using
    isArtworkSelected_decision_order
      [of "plain_artwork 13" "scenario_A 2\<lparr>deselectedRowIds := {|13|}, selectedRowIds := {|13|}\<rparr>" 0]
    isArtworkSelected_decision_order
      [of "plain_artwork 49" "scenario_A 5\<lparr>selectedRowIds := {|49|}\<rparr>" 0]
    isArtworkSelected_decision_order [of "plain_artwork 15" "scenario_A 2" 2]
    isArtworkSelected_decision_order [of "plain_artwork 16" "scenario_A 2" 3]
    isArtworkSelected_decision_order [of "plain_artwork 1" "initial_state" 0]
    isArtworkSelected_decision_order [of "plain_artwork 12" "scenario_A 1" 11]
  by (simp add: scenario_A_def plain_artwork_def initial_state_def)

section \<open>Submitting a count\<close>

text \<open>
  What \<open>handleCustomSelection\<close> does reject: a text that \<open>parseInt\<close> reads as no
  number, as zero, as a negative number, or as a number above the total. It shows an alert
  and returns the state it was given, every field of it.
\<close>

lemma handleCustomSelection_rejects:
  "parseInt (customSelectCount st) = NaN
     \<or> parseInt (customSelectCount st) = NegInfinity
     \<or> parseInt (customSelectCount st) = PosInfinity
     \<or> (\<exists>n. parseInt (customSelectCount st) = Num n \<and> (n = 0 \<or> n < 0 \<or> n > totalRecords st))
   \<Longrightarrow> fst (handleCustomSelection st) = st
       \<and> (\<exists>e. snd (handleCustomSelection st) = [e] \<and> isAlert e)"
  by (auto simp: handleCustomSelection_def isAlert_def)

text \<open>Rejected with a total of 50: a word, the empty text, zero, a negative number, 51.\<close>

lemma handleCustomSelection_rejects_examples:
  "handleCustomSelection (scenario_A 1\<lparr>customSelectCount := js ''abc''\<rparr>)
     = (scenario_A 1\<lparr>customSelectCount := js ''abc''\<rparr>, [AlertInvalidNumber])
   \<and> handleCustomSelection (scenario_A 1\<lparr>customSelectCount := []\<rparr>)
     = (scenario_A 1\<lparr>customSelectCount := []\<rparr>, [AlertInvalidNumber])
   \<and> handleCustomSelection (scenario_A 1\<lparr>customSelectCount := js ''0''\<rparr>)
     = (scenario_A 1\<lparr>customSelectCount := js ''0''\<rparr>, [AlertInvalidNumber])
   \<and> handleCustomSelection (scenario_A 1\<lparr>customSelectCount := js ''-3''\<rparr>)
     = (scenario_A 1\<lparr>customSelectCount := js ''-3''\<rparr>, [AlertInvalidNumber])
   \<and> handleCustomSelection (scenario_A 1\<lparr>customSelectCount := js ''51''\<rparr>)
     = (scenario_A 1\<lparr>customSelectCount := js ''51''\<rparr>, [AlertTooMany (Num 51) 50])"
  by (simp add: parseInt_eval scenario_A_def handleCustomSelection_def)

text \<open>
  C3, where the code departs from the claim: \<open>parseInt\<close> stops at the first character
  that is no digit, so the guards of lines 153 and 158 see the digits a text starts with
  and not the text. With a total of 50, the text \<open>1e3\<close>, a count of 1000, is read as 1,
  and the text \<open>12abc\<close>, which is no number, as 12: neither is rejected, and the state
  changes, from manual mode with ids in both sets to bulk mode with the target 1 or 12 and
  two empty sets.
\<close>

theorem handleCustomSelection_accepts_digit_prefix:
  "handleCustomSelection (manual_page\<lparr>deselectedRowIds := {|15|}, customSelectCount := js ''1e3''\<rparr>)
     = (bulk_page\<lparr>customSelectTarget := 1\<rparr>, [OverlayHide])
   \<and> handleCustomSelection
       (manual_page\<lparr>deselectedRowIds := {|15|}, customSelectCount := js ''12abc''\<rparr>)
     = (bulk_page\<lparr>customSelectTarget := 12\<rparr>, [OverlayHide])"
  by (simp add: parseInt_eval manual_page_def bulk_page_def handleCustomSelection_def)



section \<open>Manual changes reset the mode\<close>

lemma onSelectionChange_mode:
  "selectionMode (onSelectionChange ns st) = Manual
   \<and> customSelectTarget (onSelectionChange ns st) = 0"
  by (simp add: onSelectionChange_def split: prod.splits)

lemma onSelectAllChange_mode:
  "selectionMode (onSelectAllChange b st) = Manual
   \<and> customSelectTarget (onSelectAllChange b st) = 0"
  by (simp add: onSelectAllChange_def split: prod.splits)

text \<open>
  C5: after \<open>onSelectionChange\<close> and after \<open>onSelectAllChange\<close> the mode is manual and
  the target is 0, whatever the mode and the target were.
\<close>

theorem manual_change_resets_mode:
  "selectionMode (onSelectionChange newSelection st) = Manual
   \<and> customSelectTarget (onSelectionChange newSelection st) = 0
   \<and> selectionMode (onSelectAllChange checked st) = Manual
   \<and> customSelectTarget (onSelectAllChange checked st) = 0"
  by (simp add: onSelectionChange_def onSelectAllChange_def split: prod.splits)

section \<open>The two sets stay disjoint\<close>

lemma selectionStep_disjoint:
  "setsDisjoint acc \<Longrightarrow> setsDisjoint (selectionStep st ns acc row)"
  by (cases acc; cases row) (auto simp: setsDisjoint_def selectionStep_def Let_def)

lemma foldl_selectionStep_disjoint:
  "setsDisjoint acc \<Longrightarrow> setsDisjoint (foldl (selectionStep st ns) acc rows)"
  by (induction rows arbitrary: acc) (simp_all add: selectionStep_disjoint)

lemma selectAllStep_disjoint:
  "setsDisjoint acc \<Longrightarrow> setsDisjoint (selectAllStep checked acc a)"
  by (cases acc) (auto simp: setsDisjoint_def selectAllStep_def)

lemma foldl_selectAllStep_disjoint:
  "setsDisjoint acc \<Longrightarrow> setsDisjoint (foldl (selectAllStep checked) acc rows)"
  by (induction rows arbitrary: acc) (simp_all add: selectAllStep_disjoint)

lemma onSelectionChange_sets:
  "selectedRowIds (onSelectionChange ns st) =
     fst (foldl (selectionStep st ns) (selectedRowIds st, deselectedRowIds st)
            (indexed (artworks st)))
   \<and> deselectedRowIds (onSelectionChange ns st) =
     snd (foldl (selectionStep st ns) (selectedRowIds st, deselectedRowIds st)
            (indexed (artworks st)))"
  by (simp add: onSelectionChange_def split: prod.splits)

lemma onSelectAllChange_sets:
  "selectedRowIds (onSelectAllChange b st) =
     fst (foldl (selectAllStep b) (selectedRowIds st, deselectedRowIds st) (artworks st))
   \<and> deselectedRowIds (onSelectAllChange b st) =
     snd (foldl (selectAllStep b) (selectedRowIds st, deselectedRowIds st) (artworks st))"
  by (simp add: onSelectAllChange_def split: prod.splits)

lemma onSelectionChange_disjoint:
  assumes "setsDisjoint (selectedRowIds st, deselectedRowIds st)"
  shows "setsDisjoint (selectedRowIds (onSelectionChange ns st),
                       deselectedRowIds (onSelectionChange ns st))"
  using foldl_selectionStep_disjoint [OF assms, of st ns "indexed (artworks st)"]
  by (simp add: onSelectionChange_sets)

lemma onSelectAllChange_disjoint:
  assumes "setsDisjoint (selectedRowIds st, deselectedRowIds st)"
  shows "setsDisjoint (selectedRowIds (onSelectAllChange b st),
                       deselectedRowIds (onSelectAllChange b st))"
  using foldl_selectAllStep_disjoint [OF assms, of b "artworks st"]
  by (simp add: onSelectAllChange_sets)

lemma handleCustomSelection_disjoint:
  "setsDisjoint (selectedRowIds st, deselectedRowIds st) \<Longrightarrow>
   setsDisjoint (selectedRowIds (fst (handleCustomSelection st)),
                 deselectedRowIds (fst (handleCustomSelection st)))"
  by (auto simp: handleCustomSelection_def setsDisjoint_def split: number.splits)

lemma fetchArtworks_settle_selection:
  "selectedRowIds (fst (fetchArtworks_settle outcome st)) = selectedRowIds st
   \<and> deselectedRowIds (fst (fetchArtworks_settle outcome st)) = deselectedRowIds st
   \<and> selectionMode (fst (fetchArtworks_settle outcome st)) = selectionMode st
   \<and> customSelectTarget (fst (fetchArtworks_settle outcome st)) = customSelectTarget st"
  by (simp add: fetchArtworks_settle_def
      split: fetch_outcome.splits api_response.splits option.splits)

lemma step_disjoint:
  "setsDisjoint (selectedRowIds st, deselectedRowIds st) \<Longrightarrow>
   setsDisjoint (selectedRowIds (step e st), deselectedRowIds (step e st))"
  by (cases e)
    (simp_all add: step_def onPageChange_def fetchArtworks_begin_def
      fetchArtworks_settle_selection onSelectionChange_disjoint onSelectAllChange_disjoint
      handleCustomSelection_disjoint)

lemma run_disjoint:
  "setsDisjoint (selectedRowIds st, deselectedRowIds st) \<Longrightarrow>
   setsDisjoint (selectedRowIds (run es st), deselectedRowIds (run es st))"
  by (induction es arbitrary: st) (simp_all add: step_disjoint)

text \<open>
  C6: after any finite sequence of events from the initial state (manual changes, clicks on
  the header checkbox and submitted counts, on whatever pages have been fetched in between),
  no id is in the include set and in the exclude set at once.
\<close>

theorem include_exclude_never_both:
  "\<not> (x |\<in>| selectedRowIds (run es initial_state)
       \<and> x |\<in>| deselectedRowIds (run es initial_state))"
proof -
  have "setsDisjoint (selectedRowIds initial_state, deselectedRowIds initial_state)"
    by (simp add: setsDisjoint_def initial_state_def)
  then have "setsDisjoint (selectedRowIds (run es initial_state),
                           deselectedRowIds (run es initial_state))"
    by (rule run_disjoint)
  then show ?thesis
    by (auto simp: setsDisjoint_def)
qed

text \<open>After the manual session the id 14 is in the exclude set only and the id 13 in the
  include set only.\<close>

theorem include_exclude_never_both_witness:
  "14 |\<in>| deselectedRowIds (run session_B initial_state)
   \<and> 14 |\<notin>| selectedRowIds (run session_B initial_state)
   \<and> 13 |\<in>| selectedRowIds (run session_B initial_state)
   \<and> 13 |\<notin>| deselectedRowIds (run session_B initial_state)"
  using include_exclude_never_both [of 14 session_B]
    include_exclude_never_both [of 13 session_B]
  unfolding run_session_B
  by (simp add: initial_state_def)

section \<open>Mode and target in a session\<close>

lemma handleCustomSelection_modeInvariant:
  "modeInvariant st \<Longrightarrow> modeInvariant (fst (handleCustomSelection st))"
  by (auto simp: handleCustomSelection_def modeInvariant_def split: number.splits)

lemma step_modeInvariant:
  assumes "modeInvariant st"
  shows "modeInvariant (step e st)"
proof (cases e)
  case (PageChange page)
  with assms show ?thesis
    by (simp add: step_def modeInvariant_def onPageChange_def fetchArtworks_begin_def)
next
  case (FetchSettled outcome)
  with assms show ?thesis
    by (simp add: step_def modeInvariant_def fetchArtworks_settle_selection)
next
  case (SelectionChange ns)
  then show ?thesis
    by (simp add: step_def modeInvariant_def onSelectionChange_mode)
next
  case (SelectAllChange b)
  then show ?thesis
    by (simp add: step_def modeInvariant_def onSelectAllChange_mode)
next
  case (CountInput s)
  with assms show ?thesis
    by (simp add: step_def modeInvariant_def)
next
  case Submit
  with assms show ?thesis
    by (simp add: step_def handleCustomSelection_modeInvariant)
qed

lemma run_modeInvariant:
  "modeInvariant st \<Longrightarrow> modeInvariant (run es st)"
  by (induction es arbitrary: st) (simp_all add: step_modeInvariant)

lemma reachable_modeInvariant: "modeInvariant (run es initial_state)"
  by (rule run_modeInvariant) (simp add: modeInvariant_def initial_state_def)

text \<open>
  C10: in every state reached from the initial state, bulk mode comes with a positive
  target and two empty sets, and manual mode comes with the target 0. So in bulk mode
  \<open>isArtworkSelected\<close> never takes its first two branches: it is the comparison of the
  global position with the target.
\<close>

theorem reachable_mode_target:
  "(selectionMode (run es initial_state) = Custom \<longrightarrow>
      customSelectTarget (run es initial_state) > 0
      \<and> selectedRowIds (run es initial_state) = {||}
      \<and> deselectedRowIds (run es initial_state) = {||}
      \<and> (isArtworkSelected (run es initial_state) a i \<longleftrightarrow>
           (currentPage (run es initial_state) - 1) * 12 + int i + 1
             \<le> customSelectTarget (run es initial_state)))
   \<and> (selectionMode (run es initial_state) = Manual \<longrightarrow>
        customSelectTarget (run es initial_state) = 0)"
  using reachable_modeInvariant [of es]
  by (auto simp: modeInvariant_def isArtworkSelected_def ROWS_PER_PAGE_def)

text \<open>Bulk mode after the session of scenario A, manual mode before any event.\<close>

theorem reachable_mode_target_witness:
  "selectionMode (run session_A initial_state) = Custom
   \<and> customSelectTarget (run session_A initial_state) = 15
   \<and> isArtworkSelected (run session_A initial_state) (plain_artwork 12) 11
   \<and> selectionMode (run [] initial_state) = Manual
   \<and> customSelectTarget (run [] initial_state) = 0"
  using reachable_mode_target [of session_A "plain_artwork 12" 11]
    reachable_mode_target [of "[]" "plain_artwork 12" 11]
  unfolding run_session_A run.simps
  by (simp add: scenario_A_def initial_state_def)

section \<open>The count of selected rows\<close>

lemma ffilter_True: "ffilter (\<lambda>x. True) A = A"
  by auto

text \<open>
  C2: in every state reached from the initial state, \<open>getTotalSelectedCount\<close> returns
  the size of the include set when the mode is manual,
  \<open>max(0, min(target, total) - |exclude set|)\<close> when the mode is bulk and the target is
  positive, and 0 otherwise. The first two hold of any state whatever, and the raw size of
  the exclude set is what is subtracted.
\<close>

theorem getTotalSelectedCount_cases:
  "getTotalSelectedCount (run es initial_state) =
     (if selectionMode (run es initial_state) = Manual then
        int (fcard (selectedRowIds (run es initial_state)))
      else if selectionMode (run es initial_state) = Custom
              \<and> customSelectTarget (run es initial_state) > 0 then
        max 0 (min (customSelectTarget (run es initial_state))
                   (totalRecords (run es initial_state))
               - int (fcard (deselectedRowIds (run es initial_state))))
      else 0)
   \<and> (selectionMode st = Manual \<longrightarrow> getTotalSelectedCount st = int (fcard (selectedRowIds st)))
   \<and> (selectionMode st = Custom \<and> customSelectTarget st > 0 \<longrightarrow>
        getTotalSelectedCount st =
          max 0 (min (customSelectTarget st) (totalRecords st)
                 - int (fcard (deselectedRowIds st))))"
  using reachable_modeInvariant [of es]
  by (cases "selectionMode (run es initial_state)")
    (simp_all add: getTotalSelectedCount_def ffilter_True modeInvariant_def)

text \<open>After the manual session three ids are selected; after the session of scenario A the
  count is the target 15. Scenario D (manual mode, include set 3, 7, 9), scenario C (target
  and total 20, then one excluded id) and a count that stops at 0.\<close>

theorem getTotalSelectedCount_cases_witness:
  "getTotalSelectedCount (run session_B initial_state) = 3
   \<and> getTotalSelectedCount (run session_A initial_state) = 15
   \<and> getTotalSelectedCount (manual_page\<lparr>selectedRowIds := {|3, 7, 9|}\<rparr>) = 3
   \<and> getTotalSelectedCount (bulk_page\<lparr>customSelectTarget := 20, totalRecords := 20\<rparr>) = 20
   \<and> getTotalSelectedCount
       (bulk_page\<lparr>customSelectTarget := 20, totalRecords := 20, deselectedRowIds := {|5|}\<rparr>) = 19
   \<and> getTotalSelectedCount
       (bulk_page\<lparr>customSelectTarget := 1, deselectedRowIds := {|5, 6|}\<rparr>) = 0"
  using
    getTotalSelectedCount_cases [of session_B "manual_page\<lparr>selectedRowIds := {|3, 7, 9|}\<rparr>"]
    getTotalSelectedCount_cases
      [of session_A "bulk_page\<lparr>customSelectTarget := 20, totalRecords := 20\<rparr>"]
    getTotalSelectedCount_cases
      [of session_A
          "bulk_page\<lparr>customSelectTarget := 20, totalRecords := 20, deselectedRowIds := {|5|}\<rparr>"]
    getTotalSelectedCount_cases
      [of session_A "bulk_page\<lparr>customSelectTarget := 1, deselectedRowIds := {|5, 6|}\<rparr>"]
  unfolding run_session_A run_session_B
  by (simp add: manual_page_def bulk_page_def scenario_A_def initial_state_def
      fcard_finsert_if fcard_fempty)

section \<open>A fetch that fails\<close>

text \<open>
  C9, the claim as stated fails: when the fetch of a page is rejected, the twelve rows shown
  before stay in \<open>artworks\<close>; the page is not treated as empty.
\<close>

theorem fetch_failure_keeps_rows:
  "artworks (fst (fetchArtworks_settle FetchRejected (scenario_A 1))) = artworks (scenario_A 1)
   \<and> length (artworks (fst (fetchArtworks_settle FetchRejected (scenario_A 1)))) = 12"
  by (simp add: fetchArtworks_settle_def scenario_A_def upto.simps)

text \<open>
  C9, amended: when a fetch fails (the request is rejected, the body is not JSON, or the
  body has rows but no pagination object), \<open>fetchArtworks\<close> runs to its end: it logs the
  failure once and asks for nothing again, clears \<open>loading\<close>, and leaves the mode, the
  target, the include set, the exclude set, the total and the page number as they were. The
  rows shown are not emptied: they stay as they were, or are the rows of the body when it
  was parsed.
\<close>

theorem fetch_failure_handled:
  "fetch_failed outcome \<Longrightarrow>
   snd (fetchArtworks_settle outcome st) = [ConsoleError]
   \<and> loading (fst (fetchArtworks_settle outcome st)) = False
   \<and> selectionMode (fst (fetchArtworks_settle outcome st)) = selectionMode st
   \<and> customSelectTarget (fst (fetchArtworks_settle outcome st)) = customSelectTarget st
   \<and> selectedRowIds (fst (fetchArtworks_settle outcome st)) = selectedRowIds st
   \<and> deselectedRowIds (fst (fetchArtworks_settle outcome st)) = deselectedRowIds st
   \<and> totalRecords (fst (fetchArtworks_settle outcome st)) = totalRecords st
   \<and> currentPage (fst (fetchArtworks_settle outcome st)) = currentPage st
   \<and> artworks (fst (fetchArtworks_settle outcome st)) =
       (case outcome of Parsed (ApiResponse rows n) \<Rightarrow> rows | _ \<Rightarrow> artworks st)"
  by (auto simp: fetch_failed_def fetchArtworks_settle_def
      split: fetch_outcome.splits api_response.splits option.splits)

text \<open>The three failures while page 2 of the bulk example is loading.\<close>

theorem fetch_failure_handled_witness:
  "fetchArtworks_settle FetchRejected (bulk_page\<lparr>loading := True\<rparr>)
     = (bulk_page, [ConsoleError])
   \<and> fetchArtworks_settle JsonRejected (bulk_page\<lparr>loading := True\<rparr>)
     = (bulk_page, [ConsoleError])
   \<and> fetchArtworks_settle (Parsed (ApiResponse [plain_artwork 25] None))
       (bulk_page\<lparr>loading := True\<rparr>)
     = (bulk_page\<lparr>artworks := [plain_artwork 25]\<rparr>, [ConsoleError])"
  using fetch_failure_handled [of FetchRejected "bulk_page\<lparr>loading := True\<rparr>"]
    fetch_failure_handled [of JsonRejected "bulk_page\<lparr>loading := True\<rparr>"]
    fetch_failure_handled
      [of "Parsed (ApiResponse [plain_artwork 25] None)" "bulk_page\<lparr>loading := True\<rparr>"]
  by (simp add: fetch_failed_def fetchArtworks_settle_def bulk_page_def)

section \<open>What a manual change leaves alone\<close>

lemma set_indexed: "set (indexed xs) = {(xs ! i, i) | i. i < length xs}"
  by (auto simp: indexed_def set_zip)

lemma selectionStep_frame:
  assumes "artwork_id (fst row) = x \<longrightarrow>
      isArtworkSelected st (fst row) (snd row) = list_ex (\<lambda>item. artwork_id item = x) ns"
  shows "(x |\<in>| fst (selectionStep st ns acc row) \<longleftrightarrow> x |\<in>| fst acc)
       \<and> (x |\<in>| snd (selectionStep st ns acc row) \<longleftrightarrow> x |\<in>| snd acc)"
  using assms by (cases acc; cases row) (auto simp: selectionStep_def Let_def)

lemma foldl_selectionStep_frame:
  assumes "\<forall>row \<in> set rows. artwork_id (fst row) = x \<longrightarrow>
      isArtworkSelected st (fst row) (snd row) = list_ex (\<lambda>item. artwork_id item = x) ns"
  shows "(x |\<in>| fst (foldl (selectionStep st ns) acc rows) \<longleftrightarrow> x |\<in>| fst acc)
       \<and> (x |\<in>| snd (foldl (selectionStep st ns) acc rows) \<longleftrightarrow> x |\<in>| snd acc)"
  using assms
proof (induction rows arbitrary: acc)
  case Nil
  then show ?case by simp
next
  case (Cons row rows)
  have here: "(x |\<in>| fst (selectionStep st ns acc row) \<longleftrightarrow> x |\<in>| fst acc)
       \<and> (x |\<in>| snd (selectionStep st ns acc row) \<longleftrightarrow> x |\<in>| snd acc)"
    by (rule selectionStep_frame) (use Cons.prems in simp)
  have "\<forall>row \<in> set rows. artwork_id (fst row) = x \<longrightarrow>
      isArtworkSelected st (fst row) (snd row) = list_ex (\<lambda>item. artwork_id item = x) ns"
    using Cons.prems by simp
  from Cons.IH [OF this, of "selectionStep st ns acc row"] here
  show ?case by simp
qed

text \<open>
  C8: \<open>onSelectionChange\<close> changes the membership of an id only when a row of the page
  with that id was selected before and is absent from the new selection, or was not
  selected and is present in it. An id with no row on the page, and an id whose rows on the
  page all kept their status, is in the include set after the call exactly when it was
  before, and likewise for the exclude set.
\<close>

theorem onSelectionChange_frame_of_id:
  assumes "\<forall>i < length (artworks st). artwork_id (artworks st ! i) = x \<longrightarrow>
      isArtworkSelected st (artworks st ! i) i
        = list_ex (\<lambda>item. artwork_id item = x) newSelection"
  shows "(x |\<in>| selectedRowIds (onSelectionChange newSelection st)
            \<longleftrightarrow> x |\<in>| selectedRowIds st)
       \<and> (x |\<in>| deselectedRowIds (onSelectionChange newSelection st)
            \<longleftrightarrow> x |\<in>| deselectedRowIds st)"
proof -
  have "\<forall>row \<in> set (indexed (artworks st)). artwork_id (fst row) = x \<longrightarrow>
      isArtworkSelected st (fst row) (snd row)
        = list_ex (\<lambda>item. artwork_id item = x) newSelection"
    using assms by (auto simp: set_indexed)
  from foldl_selectionStep_frame [OF this, of "(selectedRowIds st, deselectedRowIds st)"]
  show ?thesis by (simp add: onSelectionChange_sets)
qed

lemma bulk_page_14_off:
  "onSelectionChange [plain_artwork 13, plain_artwork 15] bulk_page
     = bulk_page\<lparr>selectionMode := Manual, customSelectTarget := 0, deselectedRowIds := {|14|}\<rparr>"
  by (simp add: bulk_page_def page_eval)

text \<open>On the bulk page the row 14 is deselected: the id 13, whose row stays selected, is in
  neither set before and after, and the id 14 enters the exclude set.\<close>

theorem onSelectionChange_frame_of_id_witness:
  "13 |\<notin>| selectedRowIds (onSelectionChange [plain_artwork 13, plain_artwork 15] bulk_page)
   \<and> 13 |\<notin>| deselectedRowIds (onSelectionChange [plain_artwork 13, plain_artwork 15] bulk_page)
   \<and> 13 |\<notin>| selectedRowIds bulk_page \<and> 13 |\<notin>| deselectedRowIds bulk_page
   \<and> 14 |\<in>| deselectedRowIds (onSelectionChange [plain_artwork 13, plain_artwork 15] bulk_page)"
proof -
  have "\<forall>i < length (artworks bulk_page). artwork_id (artworks bulk_page ! i) = 13 \<longrightarrow>
      isArtworkSelected bulk_page (artworks bulk_page ! i) i
        = list_ex (\<lambda>item. artwork_id item = 13) [plain_artwork 13, plain_artwork 15]"
    by (auto simp: bulk_page_def page_eval nth_Cons' less_Suc_eq numeral_eq_Suc)
  from onSelectionChange_frame_of_id [OF this] show ?thesis
    by (simp add: bulk_page_14_off) (simp add: bulk_page_def)
qed

section \<open>Toggling a row off and on\<close>

lemma manual_isArtworkSelected:
  "selectionMode st = Manual \<Longrightarrow>
   isArtworkSelected st a i
     = (artwork_id a |\<notin>| deselectedRowIds st \<and> artwork_id a |\<in>| selectedRowIds st)"
  by (simp add: isArtworkSelected_def)

lemma togglesOnly_flipsRow:
  "togglesOnly x ns st = (\<forall>row \<in> set (indexed (artworks st)). flipsRow x ns st row)"
  by (simp add: togglesOnly_def flipsRow_def list_all_iff case_prod_beta)

text \<open>In manual mode, a click on a selected row moves its id to the exclude set.\<close>

lemma foldl_toggle_off:
  assumes "selectionMode st = Manual" "x |\<in>| selectedRowIds st" "x |\<notin>| deselectedRowIds st"
    and "\<forall>row \<in> set rows. flipsRow x ns st row"
  shows "foldl (selectionStep st ns) (S, D) rows =
     (if \<exists>row \<in> set rows. artwork_id (fst row) = x then (S |-| {|x|}, finsert x D)
      else (S, D))"
  using assms(4)
proof (induction rows arbitrary: S D)
  case Nil
  then show ?case by simp
next
  case (Cons row rows)
  obtain a i where row: "row = (a, i)" by (cases row)
  have rest: "\<forall>row \<in> set rows. flipsRow x ns st row" using Cons.prems by simp
  have flip: "flipsRow x ns st (a, i)" using Cons.prems row by simp
  show ?case
  proof (cases "artwork_id a = x")
    case True
    with flip assms(1-3) have "selectionStep st ns (S, D) (a, i) = (S |-| {|x|}, finsert x D)"
      by (simp add: selectionStep_def flipsRow_def manual_isArtworkSelected)
    with Cons.IH [OF rest, of "S |-| {|x|}" "finsert x D"] True row show ?thesis
      by auto
  next
    case False
    with flip have "selectionStep st ns (S, D) (a, i) = (S, D)"
      by (auto simp: selectionStep_def flipsRow_def Let_def)
    with Cons.IH [OF rest, of S D] False row show ?thesis
      by simp
  qed
qed

text \<open>In manual mode, a click on a row that is not selected moves its id to the include
  set.\<close>

lemma foldl_toggle_on:
  assumes "selectionMode st = Manual"
    and "x |\<notin>| selectedRowIds st \<or> x |\<in>| deselectedRowIds st"
    and "\<forall>row \<in> set rows. flipsRow x ns st row"
  shows "foldl (selectionStep st ns) (S, D) rows =
     (if \<exists>row \<in> set rows. artwork_id (fst row) = x then (finsert x S, D |-| {|x|})
      else (S, D))"
  using assms(3)
proof (induction rows arbitrary: S D)
  case Nil
  then show ?case by simp
next
  case (Cons row rows)
  obtain a i where row: "row = (a, i)" by (cases row)
  have rest: "\<forall>row \<in> set rows. flipsRow x ns st row" using Cons.prems by simp
  have flip: "flipsRow x ns st (a, i)" using Cons.prems row by simp
  show ?case
  proof (cases "artwork_id a = x")
    case True
    with flip assms(1-2) have "selectionStep st ns (S, D) (a, i) = (finsert x S, D |-| {|x|})"
      by (auto simp: selectionStep_def flipsRow_def manual_isArtworkSelected)
    with Cons.IH [OF rest, of "finsert x S" "D |-| {|x|}"] True row show ?thesis
      by auto
  next
    case False
    with flip have "selectionStep st ns (S, D) (a, i) = (S, D)"
      by (auto simp: selectionStep_def flipsRow_def Let_def)
    with Cons.IH [OF rest, of S D] False row show ?thesis
      by simp
  qed
qed

lemma onSelectionChange_rest:
  "artworks (onSelectionChange ns st) = artworks st
   \<and> currentPage (onSelectionChange ns st) = currentPage st
   \<and> totalRecords (onSelectionChange ns st) = totalRecords st
   \<and> loading (onSelectionChange ns st) = loading st
   \<and> customSelectCount (onSelectionChange ns st) = customSelectCount st"
  by (simp add: onSelectionChange_def split: prod.splits)

lemma row_on_page:
  assumes "i < length xs" "artwork_id (xs ! i) = x"
  shows "\<exists>row \<in> set (indexed xs). artwork_id (fst row) = x"
proof -
  have "(xs ! i, i) \<in> set (indexed xs)" using assms(1) by (auto simp: set_indexed)
  with assms(2) show ?thesis by force
qed

lemma toggle_off:
  assumes "selectionMode st = Manual" "x |\<in>| selectedRowIds st" "x |\<notin>| deselectedRowIds st"
    and "i < length (artworks st)" "artwork_id (artworks st ! i) = x"
    and "togglesOnly x ns st"
  shows "selectedRowIds (onSelectionChange ns st) = selectedRowIds st |-| {|x|}
       \<and> deselectedRowIds (onSelectionChange ns st) = finsert x (deselectedRowIds st)"
proof -
  have "\<exists>row \<in> set (indexed (artworks st)). artwork_id (fst row) = x"
    using assms(4,5) by (rule row_on_page)
  moreover have "\<forall>row \<in> set (indexed (artworks st)). flipsRow x ns st row"
    using assms(6) by (simp add: togglesOnly_flipsRow)
  ultimately show ?thesis
    using foldl_toggle_off [OF assms(1-3), of "indexed (artworks st)" ns
        "selectedRowIds st" "deselectedRowIds st"]
    by (simp add: onSelectionChange_sets)
qed

lemma toggle_on:
  assumes "selectionMode st = Manual"
    and "x |\<notin>| selectedRowIds st \<or> x |\<in>| deselectedRowIds st"
    and "i < length (artworks st)" "artwork_id (artworks st ! i) = x"
    and "togglesOnly x ns st"
  shows "selectedRowIds (onSelectionChange ns st) = finsert x (selectedRowIds st)
       \<and> deselectedRowIds (onSelectionChange ns st) = deselectedRowIds st |-| {|x|}"
proof -
  have "\<exists>row \<in> set (indexed (artworks st)). artwork_id (fst row) = x"
    using assms(3,4) by (rule row_on_page)
  moreover have "\<forall>row \<in> set (indexed (artworks st)). flipsRow x ns st row"
    using assms(5) by (simp add: togglesOnly_flipsRow)
  ultimately show ?thesis
    using foldl_toggle_on [OF assms(1-2), of "indexed (artworks st)" ns
        "selectedRowIds st" "deselectedRowIds st"]
    by (simp add: onSelectionChange_sets)
qed

lemma toggle_off_on:
  assumes "selectionMode st = Manual" "x |\<in>| selectedRowIds st" "x |\<notin>| deselectedRowIds st"
    and "i < length (artworks st)" "artwork_id (artworks st ! i) = x"
    and "togglesOnly x n1 st" "togglesOnly x n2 (onSelectionChange n1 st)"
  shows "selectedRowIds (onSelectionChange n2 (onSelectionChange n1 st)) = selectedRowIds st
       \<and> deselectedRowIds (onSelectionChange n2 (onSelectionChange n1 st))
           = deselectedRowIds st"
proof -
  let ?st1 = "onSelectionChange n1 st"
  have off: "selectedRowIds ?st1 = selectedRowIds st |-| {|x|}"
    "deselectedRowIds ?st1 = finsert x (deselectedRowIds st)"
    using toggle_off [OF assms(1-6)] by simp_all
  have m1: "selectionMode ?st1 = Manual" by (simp add: onSelectionChange_mode)
  have x1: "x |\<notin>| selectedRowIds ?st1 \<or> x |\<in>| deselectedRowIds ?st1" using off by simp
  have i1: "i < length (artworks ?st1)" "artwork_id (artworks ?st1 ! i) = x"
    using assms(4,5) by (simp_all add: onSelectionChange_rest)
  from toggle_on [OF m1 x1 i1 assms(7)] off assms(2,3) show ?thesis
    by auto
qed

text \<open>
  C7: in manual mode, take a selected row of the page and an even number of changes, each
  of which differs from the selection shown only in that row (so the first deselects it,
  the second selects it again, and so on). After them the include set and the exclude set
  are what they were before the first: the row's id is back in the include set and out of
  the exclude set, and no other id has moved.
\<close>

theorem toggle_round_trip:
  assumes "selectionMode st = Manual"
    and "i < length (artworks st)" "artwork_id (artworks st ! i) = x"
    and "isArtworkSelected st (artworks st ! i) i"
    and "toggleSequence x nss st" "even (length nss)"
  shows "selectedRowIds (applySelections nss st) = selectedRowIds st
       \<and> deselectedRowIds (applySelections nss st) = deselectedRowIds st"
  using assms
proof (induction nss arbitrary: st rule: induct_list012)
  case 1
  then show ?case by simp
next
  case (2 n)
  then show ?case by simp
next
  case (3 n1 n2 rest)
  let ?st2 = "onSelectionChange n2 (onSelectionChange n1 st)"
  have sel: "x |\<in>| selectedRowIds st" "x |\<notin>| deselectedRowIds st"
    using "3.prems"(1,3,4) by (simp_all add: manual_isArtworkSelected)
  have t1: "togglesOnly x n1 st" and t2: "togglesOnly x n2 (onSelectionChange n1 st)"
    and ts: "toggleSequence x rest ?st2"
    using "3.prems"(5) by simp_all
  have same: "selectedRowIds ?st2 = selectedRowIds st"
    "deselectedRowIds ?st2 = deselectedRowIds st"
    using toggle_off_on [OF "3.prems"(1) sel "3.prems"(2,3) t1 t2] by simp_all
  have m2: "selectionMode ?st2 = Manual" by (simp add: onSelectionChange_mode)
  have i2: "i < length (artworks ?st2)" "artwork_id (artworks ?st2 ! i) = x"
    using "3.prems"(2,3) by (simp_all add: onSelectionChange_rest)
  have s2: "isArtworkSelected ?st2 (artworks ?st2 ! i) i"
    using sel same i2 m2 by (simp add: manual_isArtworkSelected)
  have "even (length rest)" using "3.prems"(6) by simp
  from "3.IH"(1) [OF m2 i2 s2 ts this] same show ?case
    by simp
qed

lemma manual_page_14_off:
  "onSelectionChange [plain_artwork 13] manual_page
     = manual_page\<lparr>selectedRowIds := {|13|}, deselectedRowIds := {|14|}\<rparr>"
  by (simp add: manual_page_def page_eval) auto

text \<open>On the manual page the row 14 is deselected and selected again: after the first
  change its id is in the exclude set, after the second both sets are as at the start.\<close>

theorem toggle_round_trip_witness:
  "selectedRowIds
     (applySelections [[plain_artwork 13], [plain_artwork 14, plain_artwork 13]] manual_page)
     = {|13, 14|}
   \<and> deselectedRowIds
     (applySelections [[plain_artwork 13], [plain_artwork 14, plain_artwork 13]] manual_page)
     = {||}
   \<and> deselectedRowIds (applySelections [[plain_artwork 13]] manual_page) = {|14|}"
proof -
  have on_page: "1 < length (artworks manual_page)" "artwork_id (artworks manual_page ! 1) = 14"
    by (simp_all add: manual_page_def plain_artwork_def)
  have selected: "isArtworkSelected manual_page (artworks manual_page ! 1) 1"
    by (simp add: manual_page_def page_eval)
  have first: "togglesOnly 14 [plain_artwork 13] manual_page"
    by (simp add: manual_page_def page_eval)
  have second: "togglesOnly 14 [plain_artwork 14, plain_artwork 13]
      (manual_page\<lparr>selectedRowIds := {|13|}, deselectedRowIds := {|14|}\<rparr>)"
    by (simp add: manual_page_def page_eval)
  have clicks:
    "toggleSequence 14 [[plain_artwork 13], [plain_artwork 14, plain_artwork 13]] manual_page"
    using first second by (simp add: manual_page_14_off)
  have "selectionMode manual_page = Manual" by (simp add: manual_page_def)
  from toggle_round_trip [OF this on_page selected clicks] show ?thesis
    by (simp add: manual_page_14_off) (simp add: manual_page_def)
qed

end
